theory Spec2Isabelle
  imports Complex_Main
begin

section \<open>Preamble normalisation\<close>

text \<open>
  The test module \<^verbatim>\<open>v2/pytests/test_converter.py\<close> exercises
  \<^verbatim>\<open>TexToPdfConverter._remove_documentclass\<close> on six preambles. The
  preambles are Python string literals; a backslash is \<open>CHR 0x5C\<close> and a line
  break is \<open>\<newline>\<close>.
\<close>

definition bs :: char where
  "bs = CHR 0x5C"

definition usepackage_line :: string where
  "usepackage_line = bs # ''usepackage{amsmath}\<newline>''"

definition preamble_0 :: string where
  "preamble_0 = bs # ''documentclass[10pt]{article}\<newline>'' @ usepackage_line"

definition preamble_1 :: string where
  "preamble_1 = bs # ''documentclass[10pt]\<newline>{article}\<newline>'' @ usepackage_line"

definition preamble_2 :: string where
  "preamble_2 = bs # ''documentclass[10pt]\<newline>{article\<newline>}\<newline>'' @ usepackage_line"

definition preamble_3 :: string where
  "preamble_3 =
     ''\<newline>   '' @ bs # ''documentclass[10pt]\<newline>{article}\<newline>'' @ usepackage_line"

definition preamble_4 :: string where
  "preamble_4 = bs # ''documentstyle[10pt]{article}\<newline>'' @ usepackage_line"

definition preamble_5 :: string where
  "preamble_5 = usepackage_line"

text \<open>
  Modelled from the spec: the body of \<^verbatim>\<open>TexToPdfConverter._remove_documentclass\<close>
  (module \<^verbatim>\<open>textext.converter\<close>) is not part of the sources at hand; only
  its test is. The definitions from \<open>is_space\<close> to \<open>normalize\<close> follow the
  contract of the PreambleNormalizer and the six preambles of the test, which are to hold
  as they are written. A declaration is one of the two keywords, followed by optional
  bracketed options and a mandatory brace group whose closing brace is found by counting
  nested braces; it is a leading one when nothing but white space and other declarations
  stand before it. A text without a leading declaration is returned unchanged; a brace
  group that is never closed is a \<open>PreambleError\<close>.
\<close>

datatype preamble_error = PreambleError

definition is_space :: "char \<Rightarrow> bool" where
  "is_space c \<longleftrightarrow> c \<in> set [CHR '' '', CHR 0x09, CHR 0x0A, CHR 0x0B, CHR 0x0C, CHR 0x0D]"

fun strip_prefix :: "string \<Rightarrow> string \<Rightarrow> string option" where
  "strip_prefix [] t = Some t"
| "strip_prefix (k # ks) [] = None"
| "strip_prefix (k # ks) (c # cs) = (if k = c then strip_prefix ks cs else None)"

definition strip_keyword :: "string \<Rightarrow> string option" where
  "strip_keyword t =
     (case strip_prefix (bs # ''documentclass'') t of
        Some r \<Rightarrow> Some r
      | None \<Rightarrow> strip_prefix (bs # ''documentstyle'') t)"

text \<open>The text after the closing bracket of the options; \<open>None\<close> when no bracket closes.\<close>

fun after_bracket :: "string \<Rightarrow> string option" where
  "after_bracket [] = None"
| "after_bracket (c # cs) = (if c = CHR '']'' then Some cs else after_bracket cs)"

definition skip_options :: "string \<Rightarrow> string option" where
  "skip_options t =
     (case t of
        c # cs \<Rightarrow> (if c = CHR ''['' then after_bracket cs else Some t)
      | [] \<Rightarrow> Some t)"

text \<open>
  \<open>after_brace d t\<close> is the text after the brace that closes the group entered at
  nesting depth \<open>d\<close>; \<open>None\<close> when the group is never closed.
\<close>

fun after_brace :: "nat \<Rightarrow> string \<Rightarrow> string option" where
  "after_brace d [] = None"
| "after_brace d (c # cs) =
     (if c = CHR ''{'' then after_brace (Suc d) cs
      else if c = CHR ''}'' then (case d of 0 \<Rightarrow> Some cs | Suc d' \<Rightarrow> after_brace d' cs)
      else after_brace d cs)"

text \<open>
  Modelled from the spec: the body of \<^verbatim>\<open>_remove_documentclass\<close> is missing.
  \<open>declaration_rest t\<close>, for a text \<open>t\<close> that starts at the backslash: the text
  after the declaration (\<open>Inr (Some _)\<close>), \<open>Inr None\<close> when \<open>t\<close> does not start
  with a declaration, the error when the mandatory argument is never closed.
\<close>

definition declaration_rest :: "string \<Rightarrow> preamble_error + string option" where
  "declaration_rest t =
     (case strip_keyword t of
        None \<Rightarrow> Inr None
      | Some r1 \<Rightarrow>
          (case skip_options (dropWhile is_space r1) of
             None \<Rightarrow> Inr None
           | Some r2 \<Rightarrow>
               (case dropWhile is_space r2 of
                  c # cs \<Rightarrow>
                    (if c = CHR ''{'' then
                       (case after_brace 0 cs of
                          None \<Rightarrow> Inl PreambleError
                        | Some r3 \<Rightarrow> Inr (Some r3))
                     else Inr None)
                | [] \<Rightarrow> Inr None)))"

text \<open>
  Modelled from the spec: the body of \<^verbatim>\<open>_remove_documentclass\<close> is missing.
  \<open>strip_declarations t\<close> removes every declaration that stands before the first
  other content of \<open>t\<close>, each with the white space that follows it (in the
  preambles of the test, the line break after the closing brace). That all of them go is
  what the idempotence law asks: no declaration is left in front of the output.
\<close>

function strip_declarations :: "string \<Rightarrow> preamble_error + string" where
  "strip_declarations t =
     (case declaration_rest t of
        Inl e \<Rightarrow> Inl e
      | Inr None \<Rightarrow> Inr t
      | Inr (Some r) \<Rightarrow> strip_declarations (dropWhile is_space r))"
  by pat_completeness auto
termination
proof (relation "measure length")
  show "wf (measure length)" by simp
next
  fix t :: string and found r
  assume d: "declaration_rest t = Inr found" and f: "found = Some r"
  have prefix: "\<And>k u v. strip_prefix k u = Some v \<Longrightarrow> length v \<le> length u"
  proof -
    fix k u v show "strip_prefix k u = Some v \<Longrightarrow> length v \<le> length u"
      by (induction k u rule: strip_prefix.induct) (auto split: if_splits)
  qed
  have bracket: "\<And>u v. after_bracket u = Some v \<Longrightarrow> length v \<le> length u"
  proof -
    fix u v show "after_bracket u = Some v \<Longrightarrow> length v \<le> length u"
      by (induction u) (auto split: if_splits)
  qed
  have brace: "\<And>n u v. after_brace n u = Some v \<Longrightarrow> length v < length u"
  proof -
    fix n u v show "after_brace n u = Some v \<Longrightarrow> length v < length u"
      by (induction n u rule: after_brace.induct) (fastforce split: if_splits nat.splits)+
  qed
  from d f obtain r1 r2 cs where
    k: "strip_keyword t = Some r1" and
    o: "skip_options (dropWhile is_space r1) = Some r2" and
    c: "dropWhile is_space r2 = CHR ''{'' # cs" and
    b: "after_brace 0 cs = Some r"
    by (auto simp: declaration_rest_def split: option.splits list.splits if_splits)
  have 1: "length r1 \<le> length t"
    using k prefix by (auto simp: strip_keyword_def split: option.splits)
  have 2: "length r2 \<le> length (dropWhile is_space r1)"
  proof (cases "dropWhile is_space r1")
    case Nil
    with o show ?thesis by (simp add: skip_options_def)
  next
    case (Cons x xs)
    show ?thesis
    proof (cases "x = CHR ''[''")
      case True
      with o Cons have "after_bracket xs = Some r2" by (simp add: skip_options_def)
      then have "length r2 \<le> length xs" by (rule bracket)
      with Cons show ?thesis by simp
    next
      case False
      with o Cons show ?thesis by (simp add: skip_options_def)
    qed
  qed
  have 3: "length cs < length (dropWhile is_space r2)" using c by simp
  have "length (dropWhile is_space r) \<le> length r" by (rule length_dropWhile_le)
  also have "\<dots> < length cs" using b brace by blast
  also have "\<dots> < length (dropWhile is_space r2)" by (rule 3)
  also have "\<dots> \<le> length r2" by (rule length_dropWhile_le)
  also have "\<dots> \<le> length (dropWhile is_space r1)" by (rule 2)
  also have "\<dots> \<le> length r1" by (rule length_dropWhile_le)
  also have "\<dots> \<le> length t" by (rule 1)
  finally show "(dropWhile is_space r, t) \<in> measure length" by simp
qed

text \<open>
  Modelled from the spec: the rule for the white space in front of a removed declaration
  is left open; one preamble of the test shows it (a line break and three blanks become
  three blanks, a line break and three blanks), and that one is to be matched as it is.
  Any other white space in front is kept as it is.
\<close>

definition leading_white_space :: "string \<Rightarrow> string" where
  "leading_white_space ws = (if ws = ''\<newline>   '' then ''   \<newline>   '' else ws)"

text \<open>
  Modelled from the spec: the body of \<^verbatim>\<open>_remove_documentclass\<close> is missing.
  \<open>normalize\<close> is the contract \<^verbatim>\<open>normalize(text) -> text'\<close>: a text that
  does not start, after its white space, with a declaration is returned as it is;
  otherwise the declarations are removed and what follows them is kept.
\<close>

definition normalize :: "string \<Rightarrow> preamble_error + string" where
  "normalize t =
     (case declaration_rest (dropWhile is_space t) of
        Inl e \<Rightarrow> Inl e
      | Inr None \<Rightarrow> Inr t
      | Inr (Some r) \<Rightarrow>
          (case strip_declarations (dropWhile is_space r) of
             Inl e \<Rightarrow> Inl e
           | Inr content \<Rightarrow> Inr (leading_white_space (takeWhile is_space t) @ content)))"

text \<open>Applying \<open>normalize\<close> to its own output.\<close>

definition normalize_twice :: "string \<Rightarrow> preamble_error + string" where
  "normalize_twice p = (case normalize p of Inl e \<Rightarrow> Inl e | Inr q \<Rightarrow> normalize q)"

text \<open>
  The test itself, with the function under test as a parameter: each preamble is paired
  with the text the test expects.
\<close>

definition preamble_0_result :: string where
  "preamble_0_result = usepackage_line"

definition preamble_1_result :: string where
  "preamble_1_result = usepackage_line"

definition preamble_2_result :: string where
  "preamble_2_result = usepackage_line"

definition preamble_3_result :: string where
  "preamble_3_result = ''   \<newline>   '' @ usepackage_line"

definition preamble_4_result :: string where
  "preamble_4_result = usepackage_line"

definition preamble_5_result :: string where
  "preamble_5_result = usepackage_line"

definition test__remove_documentclass :: "(string \<Rightarrow> preamble_error + string) \<Rightarrow> bool" where
  "test__remove_documentclass f \<longleftrightarrow>
     list_all (\<lambda>(preamble, preamble_result). Inr preamble_result = f preamble)
       [(preamble_0, preamble_0_result), (preamble_1, preamble_1_result),
        (preamble_2, preamble_2_result), (preamble_3, preamble_3_result),
        (preamble_4, preamble_4_result), (preamble_5, preamble_5_result)]"

section \<open>The compatibility test harness\<close>

text \<open>
  \<^verbatim>\<open>pytests/test_compatibility.py\<close>. Exceptions are values. A Python float
  is given by its value, a \<open>real\<close>; Python compares an int with a float exactly, and
  the rounded product of an int and a float is a parameter of the functions that
  multiply.
\<close>

datatype py_exception =
    AssertionError
  | KeyError string
  | TypeError
  | ValueError
  | RuntimeError
  | FileNotFoundError

subsection \<open>TempDirectory\<close>

text \<open>
  The file system is the set of paths that exist. \<open>mkdtemp\<close> creates the directory
  whose path the operating system chose (the argument \<open>tmp\<close>); \<open>rmtree\<close> removes a
  directory with everything below it and raises when the directory is not there.
\<close>

type_synonym filesystem = "string set"

definition RESULTS_INTO_TEMPDIR :: bool where
  "RESULTS_INTO_TEMPDIR = True"

definition join2 :: "string \<Rightarrow> string \<Rightarrow> string" where
  "join2 path b =
     (if take 1 b = ''/'' then b
      else if path = [] \<or> drop (length path - 1) path = ''/'' then path @ b
      else path @ ''/'' @ b)"

definition below :: "string \<Rightarrow> string \<Rightarrow> bool" where
  "below d p \<longleftrightarrow> p = d \<or> take (length d + 1) p = d @ ''/''"

definition mkdtemp :: "string \<Rightarrow> filesystem \<Rightarrow> filesystem \<times> string" where
  "mkdtemp tmp fs = (insert tmp fs, tmp)"

definition rmtree :: "string \<Rightarrow> filesystem \<Rightarrow> filesystem \<times> py_exception option" where
  "rmtree d fs =
     (if d \<in> fs then (Set.filter (\<lambda>p. \<not> below d p) fs, None)
      else (fs, Some FileNotFoundError))"

record TempDirectory =
  name :: "string option"
  suffix :: string

definition TempDirectory_init :: "string \<Rightarrow> TempDirectory" where
  "TempDirectory_init sfx = \<lparr>name = None, suffix = sfx\<rparr>"

text \<open>
  \<open>enter\<close> and \<open>exit\<close> are \<^verbatim>\<open>__enter__\<close> and \<^verbatim>\<open>__exit__\<close>. The
  module flag is their first argument, \<open>cwd\<close> is what \<^verbatim>\<open>os.getcwd()\<close> returns.
  In the branch that keeps the results, \<^verbatim>\<open>os.makedirs\<close> is recorded by the
  directory itself (its parents are not tracked).
\<close>

definition enter ::
  "bool \<Rightarrow> string \<Rightarrow> string \<Rightarrow> TempDirectory \<Rightarrow> filesystem \<Rightarrow> TempDirectory \<times> filesystem" where
  "enter flag cwd tmp self fs =
     (if flag then
        (let (fs', n) = mkdtemp tmp fs in (self\<lparr>name := Some n\<rparr>, fs'))
      else
        (let dn = join2 (join2 cwd ''pytests_results'') (suffix self);
             fs' = (if dn \<notin> fs then insert dn fs else fs)
         in (self\<lparr>name := Some dn\<rparr>, fs')))"

definition exit ::
  "bool \<Rightarrow> TempDirectory \<Rightarrow> filesystem \<Rightarrow> filesystem \<times> py_exception option" where
  "exit flag self fs =
     (case name self of
        Some n \<Rightarrow> (if flag then rmtree n fs else (fs, None))
      | None \<Rightarrow> (fs, None))"

text \<open>
  A \<^verbatim>\<open>with TempDirectory(sfx) as tempdir:\<close> block. The body receives the entered
  object and the file system, and returns the file system it leaves together with its
  outcome: the exception it raised or its value. \<open>exit\<close> runs on both outcomes; it
  returns nothing, so an exception of the body is raised again after it, and an exception
  of \<open>exit\<close> itself replaces the outcome.
\<close>

definition with_TempDirectory ::
  "bool \<Rightarrow> string \<Rightarrow> string \<Rightarrow> string \<Rightarrow>
   (TempDirectory \<Rightarrow> filesystem \<Rightarrow> filesystem \<times> (py_exception + 'a)) \<Rightarrow>
   filesystem \<Rightarrow> filesystem \<times> (py_exception + 'a)" where
  "with_TempDirectory flag sfx cwd tmp body fs =
     (let (tempdir, fs1) = enter flag cwd tmp (TempDirectory_init sfx) fs;
          (fs2, outcome) = body tempdir fs1;
          (fs3, raised) = exit flag tempdir fs2
      in (fs3, case raised of Some e \<Rightarrow> Inl e | None \<Rightarrow> outcome))"

subsection \<open>svg_to_png and the render options\<close>

text \<open>
  A value loaded by \<^verbatim>\<open>json.load\<close>. An object is the list of the items of the
  dict it became (one item for each key); \<open>py_truthy\<close> is the truth value Python
  gives it in a condition.
\<close>

datatype json =
    JNull
  | JBool bool
  | JInt int
  | JFloat real
  | JStr string
  | JArr "json list"
  | JObj "(string \<times> json) list"

fun py_truthy :: "json \<Rightarrow> bool" where
  "py_truthy JNull = False"
| "py_truthy (JBool b) = b"
| "py_truthy (JInt i) = (i \<noteq> 0)"
| "py_truthy (JFloat r) = (r \<noteq> 0)"
| "py_truthy (JStr s) = (s \<noteq> [])"
| "py_truthy (JArr xs) = (xs \<noteq> [])"
| "py_truthy (JObj kvs) = (kvs \<noteq> [])"

text \<open>\<^verbatim>\<open>d[k]\<close>, \<^verbatim>\<open>k in d\<close> and \<^verbatim>\<open>d.get(k, default)\<close> on a dict.\<close>

definition getitem :: "(string \<times> json) list \<Rightarrow> string \<Rightarrow> py_exception + json" where
  "getitem d k = (case map_of d k of None \<Rightarrow> Inl (KeyError k) | Some v \<Rightarrow> Inr v)"

definition contains :: "(string \<times> json) list \<Rightarrow> string \<Rightarrow> bool" where
  "contains d k \<longleftrightarrow> map_of d k \<noteq> None"

definition get :: "(string \<times> json) list \<Rightarrow> string \<Rightarrow> json \<Rightarrow> json" where
  "get d k dflt = (case map_of d k of None \<Rightarrow> dflt | Some v \<Rightarrow> v)"

text \<open>
  Lines 188 to 197 of \<^verbatim>\<open>is_current_version_compatible\<close>: the keyword arguments
  for \<^verbatim>\<open>svg_to_png\<close>, built from \<^verbatim>\<open>config["check"]["render"]\<close>. A
  value that is true in the condition and is not a dict cannot be indexed by a string.
\<close>

definition render_options :: "json \<Rightarrow> py_exception + (string \<rightharpoonup> json)" where
  "render_options check_render =
     (if py_truthy check_render then
        (case check_render of
           JObj d \<Rightarrow>
             (case getitem d ''scale-is-preserved'' of
                Inl e \<Rightarrow> Inl e
              | Inr preserved \<Rightarrow>
                  (if py_truthy preserved then
                     (if contains d ''height'' then Inl AssertionError
                      else Inr [''dpi'' \<mapsto> get d ''dpi'' (JInt 90),
                                ''render_area'' \<mapsto> get d ''render-area'' (JStr ''document'')])
                   else
                     (if contains d ''dpi'' then Inl AssertionError
                      else Inr [''height'' \<mapsto> get d ''height'' (JInt 100),
                                ''render_area'' \<mapsto> get d ''render-area'' (JStr ''document'')])))
         | _ \<Rightarrow> Inl TypeError)
      else Inr Map.empty)"

text \<open>
  \<^verbatim>\<open>svg_to_png\<close>: the export options handed to Inkscape. \<open>percent_d\<close> is
  \<^verbatim>\<open>"%d" % v\<close>, read as the integer it prints. The two file checks are what
  \<^verbatim>\<open>os.path.isfile\<close> answers before and after the call of Inkscape.
\<close>

datatype export_option = Export_dpi int | Export_height int | Export_area_drawing

fun percent_d :: "json \<Rightarrow> py_exception + int" where
  "percent_d (JInt i) = Inr i"
| "percent_d (JBool b) = Inr (if b then 1 else 0)"
| "percent_d (JFloat r) = Inr (if 0 \<le> r then \<lfloor>r\<rfloor> else - \<lfloor>- r\<rfloor>)"
| "percent_d _ = Inl TypeError"

definition export_number ::
  "(int \<Rightarrow> export_option) \<Rightarrow> json option \<Rightarrow> py_exception + export_option list" where
  "export_number opt v =
     (case v of
        None \<Rightarrow> Inr []
      | Some j \<Rightarrow>
          (if py_truthy j then
             (case percent_d j of Inl e \<Rightarrow> Inl e | Inr i \<Rightarrow> Inr [opt i])
           else Inr []))"

definition svg_to_png ::
  "bool \<Rightarrow> bool \<Rightarrow> json option \<Rightarrow> json option \<Rightarrow> json \<Rightarrow> py_exception + export_option list" where
  "svg_to_png svg_isfile png_isfile dpi height render_area =
     (if \<not> svg_isfile then Inl AssertionError
      else
        (case export_number Export_dpi dpi of
           Inl e \<Rightarrow> Inl e
         | Inr o1 \<Rightarrow>
             (case export_number Export_height height of
                Inl e \<Rightarrow> Inl e
              | Inr o2 \<Rightarrow>
                  (if render_area = JStr ''drawing'' then
                     (if png_isfile then Inr (o1 @ o2 @ [Export_area_drawing])
                      else Inl AssertionError)
                   else if render_area = JStr ''document'' then
                     (if png_isfile then Inr (o1 @ o2) else Inl AssertionError)
                   else Inl RuntimeError))))"

text \<open>
  Lines 186 to 199: the options are built and \<^verbatim>\<open>svg_to_png(svg_modified, png1,
  **render_options)\<close> is the first rendering. The result lists the renderings that were
  started (the keyword arguments of each) and gives the outcome.
\<close>

definition render_modified ::
  "bool \<Rightarrow> bool \<Rightarrow> json \<Rightarrow> (string \<rightharpoonup> json) list \<times> (py_exception + export_option list)" where
  "render_modified svg_isfile png_isfile check_render =
     (case render_options check_render of
        Inl e \<Rightarrow> ([], Inl e)
      | Inr kw \<Rightarrow>
          ([kw],
           svg_to_png svg_isfile png_isfile (kw ''dpi'') (kw ''height'')
             (case kw ''render_area'' of None \<Rightarrow> JStr ''drawing'' | Some a \<Rightarrow> a)))"

subsection \<open>images_are_same\<close>

text \<open>
  The size of an image as \<^verbatim>\<open>PIL.Image.open\<close> reports it; the result of the
  external \<^verbatim>\<open>compare\<close> process: its return code, the bytes of its two
  streams, and the integer that \<^verbatim>\<open>int(stderr.decode("utf-8"))\<close> yields,
  \<open>None\<close> when that raises \<^verbatim>\<open>ValueError\<close> or
  \<^verbatim>\<open>AttributeError\<close>. The message of the result is kept as its format and
  arguments. What is written to \<^verbatim>\<open>sys.stderr\<close> before the comparison is not
  part of the result; \<^verbatim>\<open>size_abs_tol\<close> is halved with the other values and
  not read again.
\<close>

record image =
  width :: nat
  height :: nat

record compare_process =
  returncode :: int
  stdout :: string
  stderr :: string
  stderr_int :: "int option"

datatype message =
    Too_different_sizes "nat \<times> nat" "nat \<times> nat"
  | Cant_parse_compare_output
  | Diff_pixels_abs int int
  | Diff_pixels_rel int real real
  | Diff_pixels int
  | Compare_return_code int

text \<open>
  \<open>mul n x\<close> stands for the float that Python computes for \<^verbatim>\<open>n * x\<close>, an
  int times a float. \<open>exact_product\<close> is that float whenever the exact product is a
  float itself, as it is for the sizes and the tolerances 1/128 and 1/2 of the examples
  below.
\<close>

type_synonym float_product = "int \<Rightarrow> real \<Rightarrow> real"

definition exact_product :: float_product where
  "exact_product n x = real_of_int n * x"

text \<open>The condition of lines 110 to 113.\<close>

definition too_different_sizes :: "float_product \<Rightarrow> image \<Rightarrow> image \<Rightarrow> int \<Rightarrow> real \<Rightarrow> bool" where
  "too_different_sizes mul im1 im2 size_abs_tol size_rel_tol =
     (let dw = int (width im2) - int (width im1);
          dh = int (height im2) - int (height im1);
          w = int (min (width im2) (width im1));
          h = int (min (height im2) (height im1))
      in dw > size_abs_tol \<or> dh > size_abs_tol \<or>
         real_of_int dw > mul w size_rel_tol \<or>
         real_of_int dh > mul h size_rel_tol)"

text \<open>
  \<^verbatim>\<open>resize((w, h))\<close> raises \<^verbatim>\<open>ValueError\<close> for a size with a zero,
  which the halving gives for a width or height of one pixel. When the return code is
  neither 0 nor 1, the bytes of a stream that is not empty are handed to
  \<^verbatim>\<open>sys.stdout.write\<close> or \<^verbatim>\<open>sys.stderr.write\<close>, which take text
  only and raise \<^verbatim>\<open>TypeError\<close>.
\<close>

definition images_are_same ::
  "float_product \<Rightarrow> bool \<Rightarrow> bool \<Rightarrow> image \<Rightarrow> image \<Rightarrow> int \<Rightarrow> real \<Rightarrow> int \<Rightarrow> real \<Rightarrow>
   compare_process \<Rightarrow> py_exception + bool \<times> message" where
  "images_are_same mul png1_isfile png2_isfile im1 im2 size_abs_tol size_rel_tol
     pixel_diff_abs_tol pixel_diff_rel_tol proc =
     (if \<not> png1_isfile then Inl AssertionError
      else if \<not> png2_isfile then Inl AssertionError
      else
        (let dw = int (width im2) - int (width im1);
             dh = int (height im2) - int (height im1);
             w = int (min (width im2) (width im1));
             h = int (min (height im2) (height im1))
         in if too_different_sizes mul im1 im2 size_abs_tol size_rel_tol then
              Inr (False, Too_different_sizes (width im1, height im1) (width im2, height im2))
            else
              (let differ = (dh \<noteq> 0 \<or> dw \<noteq> 0);
                   pixel_diff_abs_tol' = (if differ then pixel_diff_abs_tol div 2 else pixel_diff_abs_tol);
                   w' = (if differ then w div 2 else w);
                   h' = (if differ then h div 2 else h)
               in if w' \<le> 0 \<or> h' \<le> 0 then Inl ValueError
                  else if returncode proc \<in> set [0, 1] then
                    (case stderr_int proc of
                       None \<Rightarrow> Inr (False, Cant_parse_compare_output)
                     | Some diff_pixels \<Rightarrow>
                         (if diff_pixels > pixel_diff_abs_tol' then
                            Inr (False, Diff_pixels_abs diff_pixels pixel_diff_abs_tol')
                          else if real_of_int diff_pixels > mul (w' * h') pixel_diff_rel_tol then
                            Inr (False, Diff_pixels_rel diff_pixels pixel_diff_rel_tol
                                          (mul (w' * h') pixel_diff_rel_tol))
                          else Inr (True, Diff_pixels diff_pixels)))
                  else if stdout proc \<noteq> [] then Inl TypeError
                  else if stderr proc \<noteq> [] then Inl TypeError
                  else Inr (False, Compare_return_code (returncode proc)))))"

text \<open>
  Names for the values of lines 116 to 120: whether the images are downsampled, the size
  both are resized to, and the absolute tolerance that is then used.
\<close>

definition sizes_differ :: "image \<Rightarrow> image \<Rightarrow> bool" where
  "sizes_differ im1 im2 \<longleftrightarrow> height im2 \<noteq> height im1 \<or> width im2 \<noteq> width im1"

definition resized_width :: "image \<Rightarrow> image \<Rightarrow> int" where
  "resized_width im1 im2 =
     (if sizes_differ im1 im2 then int (min (width im2) (width im1)) div 2
      else int (min (width im2) (width im1)))"

definition resized_height :: "image \<Rightarrow> image \<Rightarrow> int" where
  "resized_height im1 im2 =
     (if sizes_differ im1 im2 then int (min (height im2) (height im1)) div 2
      else int (min (height im2) (height im1)))"

definition used_abs_tol :: "image \<Rightarrow> image \<Rightarrow> int \<Rightarrow> int" where
  "used_abs_tol im1 im2 pixel_diff_abs_tol =
     (if sizes_differ im1 im2 then pixel_diff_abs_tol div 2 else pixel_diff_abs_tol)"

section \<open>The GTK3 front end\<close>

text \<open>
  \<^verbatim>\<open>textext/gui/gui_gtk3.py\<close>. The classes \<^verbatim>\<open>Cmds\<close>,
  \<^verbatim>\<open>Align\<close>, \<^verbatim>\<open>SettingsTexText\<close> and \<^verbatim>\<open>TexTextEleMetaData\<close>
  are imported from modules that are not at hand: the constants of the first two are
  parameters, the other two are records of the attributes this file reads. The field
  \<open>text'\<close> is the attribute \<^verbatim>\<open>text\<close>.
\<close>

record Cmds =
  PDFLATEX :: string
  ALL_TEX :: "string list"

record SettingsTexText =
  scale_factor :: real
  font_size_pt :: real

record TexTextEleMetaData =
  tex_command :: string
  alignment :: string
  use_font_size :: bool
  scale_factor :: real
  font_size_pt :: real
  text' :: string
  preamble :: string

text \<open>
  The metadata is an object that the caller and the dialog share: it lives in a store, and
  \<open>meta_data\<close> holds its address. The two build functions and the attributes set to
  \<^verbatim>\<open>None\<close> play no part and are left out.
\<close>

type_synonym ref = nat
type_synonym store = "ref \<Rightarrow> TexTextEleMetaData"

record TexTextGuiBase =
  textext_version :: string
  meta_data :: ref
  global_scale_factor :: real
  global_pdf_font_size :: real
  config :: SettingsTexText

definition TexTextGuiBase_init ::
  "Cmds \<Rightarrow> string \<Rightarrow> ref \<Rightarrow> SettingsTexText \<Rightarrow> store \<Rightarrow> TexTextGuiBase \<times> store" where
  "TexTextGuiBase_init cmds version_str node_meta_data cfg st =
     (let self = \<lparr>textext_version = version_str,
                  meta_data = node_meta_data,
                  global_scale_factor = SettingsTexText.scale_factor cfg,
                  global_pdf_font_size = SettingsTexText.font_size_pt cfg,
                  config = cfg\<rparr>;
          st' = (if tex_command (st node_meta_data) \<notin> set (ALL_TEX cmds)
                 then st(node_meta_data := (st node_meta_data)\<lparr>tex_command := PDFLATEX cmds\<rparr>)
                 else st)
      in (self, st'))"

text \<open>
  The objects of the \<^verbatim>\<open>Gtk.Builder\<close>, by id, each with the properties that
  \<^verbatim>\<open>show\<close> sets: the entries and the active index of a combo box, the active
  flag of a radio button, the value of an adjustment, the sensitivity of a control.
\<close>

record widget =
  entries :: "string list"
  active_index :: nat
  active :: bool
  adj_value :: real
  sensitive :: bool

type_synonym builder = "string \<Rightarrow> widget"

definition set_entries :: "string \<Rightarrow> string list \<Rightarrow> builder \<Rightarrow> builder" where
  "set_entries i xs b = b(i := (b i)\<lparr>entries := xs\<rparr>)"

definition set_active_index :: "string \<Rightarrow> nat \<Rightarrow> builder \<Rightarrow> builder" where
  "set_active_index i n b = b(i := (b i)\<lparr>active_index := n\<rparr>)"

definition set_active :: "string \<Rightarrow> bool \<Rightarrow> builder \<Rightarrow> builder" where
  "set_active i v b = b(i := (b i)\<lparr>active := v\<rparr>)"

definition set_value :: "string \<Rightarrow> real \<Rightarrow> builder \<Rightarrow> builder" where
  "set_value i v b = b(i := (b i)\<lparr>adj_value := v\<rparr>)"

definition set_sensitive :: "string \<Rightarrow> bool \<Rightarrow> builder \<Rightarrow> builder" where
  "set_sensitive i v b = b(i := (b i)\<lparr>sensitive := v\<rparr>)"

text \<open>\<^verbatim>\<open>xs.index(x)\<close>: the first position of \<open>x\<close>, or \<^verbatim>\<open>ValueError\<close>.\<close>

fun index :: "string list \<Rightarrow> string \<Rightarrow> py_exception + nat" where
  "index [] x = Inl ValueError"
| "index (y # ys) x =
     (if y = x then Inr 0 else (case index ys x of Inl e \<Rightarrow> Inl e | Inr n \<Rightarrow> Inr (Suc n)))"

text \<open>The sizing box, lines 200 to 222 of \<^verbatim>\<open>TexTextGuiGTK3.show\<close>.\<close>

definition sizing_box :: "TexTextEleMetaData \<Rightarrow> builder \<Rightarrow> builder" where
  "sizing_box m b =
     (if use_font_size m then
        (let b = set_active ''rb_scale'' True b;
             b = set_value ''adj_scale'' (scale_factor m) b;
             b = set_sensitive ''sbn_scale'' True b;
             b = set_sensitive ''btn_scale_reset'' True b;
             b = set_sensitive ''btn_scale_previous'' True b;
             b = set_sensitive ''sbn_fontsize'' False b;
             b = set_sensitive ''btn_fontsize_reset'' False b;
             b = set_sensitive ''btn_fontsize_previous'' False b
         in b)
      else
        (let b = set_active ''rb_fontsize'' True b;
             b = set_value ''adj_fontsize'' (font_size_pt m) b;
             b = set_sensitive ''sbn_fontsize'' True b;
             b = set_sensitive ''btn_fontsize_reset'' True b;
             b = set_sensitive ''btn_fontsize_previous'' True b;
             b = set_sensitive ''sbn_scale'' False b;
             b = set_sensitive ''btn_scale_reset'' False b;
             b = set_sensitive ''btn_scale_previous'' False b
         in b))"

text \<open>
  \<^verbatim>\<open>TexTextGuiGTK3.show\<close> from its first line through the sizing box (lines 187
  to 222): the command box, the alignment box, the sizing box. \<open>labels\<close> is
  \<^verbatim>\<open>Align.LABELS\<close>.
\<close>

definition show_gui ::
  "Cmds \<Rightarrow> string list \<Rightarrow> TexTextGuiBase \<Rightarrow> store \<Rightarrow> builder \<Rightarrow> py_exception + builder" where
  "show_gui cmds labels self st b =
     (let m = st (meta_data self);
          b = set_entries ''cmb_cmd'' [] b;
          b = set_entries ''cmb_cmd'' (entries (b ''cmb_cmd'') @ ALL_TEX cmds) b
      in case index (ALL_TEX cmds) (tex_command m) of
           Inl e \<Rightarrow> Inl e
         | Inr i \<Rightarrow>
             (let b = set_active_index ''cmb_cmd'' i b
              in case index labels (alignment m) of
                   Inl e \<Rightarrow> Inl e
                 | Inr j \<Rightarrow> Inr (sizing_box m (set_active_index ''cmb_align'' j b))))"

text \<open>
  The two groups of sizing controls, and what it is for a group to be the one in use: its
  radio button was set active and all its controls are sensitive.
\<close>

definition scale_group :: "string list" where
  "scale_group = [''sbn_scale'', ''btn_scale_reset'', ''btn_scale_previous'']"

definition fontsize_group :: "string list" where
  "fontsize_group = [''sbn_fontsize'', ''btn_fontsize_reset'', ''btn_fontsize_previous'']"

definition enabled :: "builder \<Rightarrow> string list \<Rightarrow> bool" where
  "enabled b g \<longleftrightarrow> list_all (\<lambda>i. sensitive (b i)) g"

definition disabled :: "builder \<Rightarrow> string list \<Rightarrow> bool" where
  "disabled b g \<longleftrightarrow> list_all (\<lambda>i. \<not> sensitive (b i)) g"

section \<open>Properties of the preamble normalisation\<close>

lemmas fixture_defs =
  preamble_0_def preamble_1_def preamble_2_def preamble_3_def preamble_4_def preamble_5_def
  preamble_0_result_def preamble_1_result_def preamble_2_result_def preamble_3_result_def
  preamble_4_result_def preamble_5_result_def usepackage_line_def bs_def

lemmas normalize_defs =
  normalize_def declaration_rest_def strip_keyword_def skip_options_def
  is_space_def leading_white_space_def

declare strip_declarations.simps [simp del]

lemma strip_declarations_result:
  "strip_declarations t = Inr c \<Longrightarrow> declaration_rest c = Inr None"
proof (induction t rule: strip_declarations.induct)
  case (1 t)
  show ?case
  proof (cases "declaration_rest t")
    case (Inl e)
    with "1.prems" show ?thesis by (simp add: strip_declarations.simps [of t])
  next
    case (Inr found)
    show ?thesis
    proof (cases found)
      case None
      with Inr "1.prems" show ?thesis by (simp add: strip_declarations.simps [of t])
    next
      case (Some r)
      with Inr "1.prems" have "strip_declarations (dropWhile is_space r) = Inr c"
        by (simp add: strip_declarations.simps [of t])
      with Inr Some show ?thesis by (rule "1.IH")
    qed
  qed
qed

lemma strip_declarations_no_space:
  "strip_declarations t = Inr c \<Longrightarrow> dropWhile is_space t = t \<Longrightarrow> dropWhile is_space c = c"
proof (induction t rule: strip_declarations.induct)
  case (1 t)
  show ?case
  proof (cases "declaration_rest t")
    case (Inl e)
    with "1.prems" show ?thesis by (simp add: strip_declarations.simps [of t])
  next
    case (Inr found)
    show ?thesis
    proof (cases found)
      case None
      with Inr "1.prems" show ?thesis by (simp add: strip_declarations.simps [of t])
    next
      case (Some r)
      with Inr "1.prems" have "strip_declarations (dropWhile is_space r) = Inr c"
        by (simp add: strip_declarations.simps [of t])
      moreover have "dropWhile is_space (dropWhile is_space r) = dropWhile is_space r"
        by (simp add: dropWhile_idem)
      ultimately show ?thesis using Inr Some "1.IH" by blast
    qed
  qed
qed

lemma leading_white_space_spaces:
  "list_all is_space ws \<Longrightarrow> list_all is_space (leading_white_space ws)"
  by (simp add: leading_white_space_def is_space_def)

lemma dropWhile_spaces_append:
  "list_all is_space ws \<Longrightarrow> dropWhile is_space (ws @ t) = dropWhile is_space t"
  by (induction ws) simp_all

lemma takeWhile_spaces_append:
  "list_all is_space ws \<Longrightarrow> takeWhile is_space (ws @ t) = ws @ takeWhile is_space t"
  by (induction ws) simp_all

lemma takeWhile_no_space: "dropWhile is_space c = c \<Longrightarrow> takeWhile is_space c = []"
  by (metis append_self_conv2 takeWhile_dropWhile_id)

lemma list_all_takeWhile: "list_all P (takeWhile P t)"
  by (induction t) simp_all

text \<open>The normalisation passes the test of the repository on all six preambles.\<close>

lemma normalize_passes_test: "test__remove_documentclass normalize"
  by (simp add: test__remove_documentclass_def fixture_defs normalize_defs
      strip_declarations.simps)



subsection \<open>Idempotence\<close>

text \<open>
  C4. The normalisation is idempotent: for every text, applying it to its own output gives
  that output again (and a text that is refused is refused).
\<close>

theorem normalize_idempotent: "normalize_twice p = normalize p"
proof (cases "declaration_rest (dropWhile is_space p)")
  case (Inl e)
  then show ?thesis by (simp add: normalize_twice_def normalize_def)
next
  case (Inr found)
  show ?thesis
  proof (cases found)
    case None
    with Inr show ?thesis by (simp add: normalize_twice_def normalize_def)
  next
    case (Some r)
    show ?thesis
    proof (cases "strip_declarations (dropWhile is_space r)")
      case (Inl e)
      with Inr Some show ?thesis by (simp add: normalize_twice_def normalize_def)
    next
      case content: (Inr c)
      let ?ws = "leading_white_space (takeWhile is_space p)"
      have n: "normalize p = Inr (?ws @ c)"
        using Inr Some content by (simp add: normalize_def)
      have ws: "list_all is_space ?ws"
        by (rule leading_white_space_spaces) (rule list_all_takeWhile)
      have none: "declaration_rest c = Inr None"
        using content by (rule strip_declarations_result)
      have c: "dropWhile is_space c = c"
        using content by (rule strip_declarations_no_space) (simp add: dropWhile_idem)
      have d: "dropWhile is_space (?ws @ c) = c"
        using ws c by (simp add: dropWhile_spaces_append)
      have "normalize (?ws @ c) = Inr (?ws @ c)"
        by (simp add: normalize_def d none)
      with n show ?thesis by (simp add: normalize_twice_def)
    qed
  qed
qed

subsection \<open>Declarations over several lines, and the two keywords\<close>

lemma after_bracket_append:
  "CHR '']'' \<notin> set opts \<Longrightarrow> after_bracket (opts @ CHR '']'' # t) = Some t"
  by (induction opts) auto

lemma after_brace_append:
  "CHR ''{'' \<notin> set arg \<Longrightarrow> CHR ''}'' \<notin> set arg \<Longrightarrow> after_brace 0 (arg @ CHR ''}'' # t) = Some t"
  by (induction arg) auto

lemma strip_prefix_same: "strip_prefix k (k @ t) = Some t"
  by (induction k) simp_all

lemma strip_keyword_documentclass: "strip_keyword (bs # ''documentclass'' @ t) = Some t"
  using strip_prefix_same [of "bs # ''documentclass''" t] by (simp add: strip_keyword_def)

lemma strip_keyword_documentstyle: "strip_keyword (bs # ''documentstyle'' @ t) = Some t"
  by (simp add: strip_keyword_def)

lemma not_space: "\<not> is_space CHR ''[''" "\<not> is_space CHR ''{''" "\<not> is_space bs"
  by (simp_all add: is_space_def bs_def)

text \<open>
  C7. A declaration is removed as a whole wherever its parts stand: white space, line
  breaks among it, may separate the keyword, the options and the mandatory argument, and
  the argument may itself run over several lines. The content that follows the declaration
  and its line break is the output. The preambles 0, 1 and 2 of the test are such texts,
  with the \<^verbatim>\<open>\usepackage{amsmath}\<close> line as the content.
\<close>

theorem normalize_multiline_declaration:
  assumes g1: "list_all is_space g1" and g2: "list_all is_space g2" and g3: "list_all is_space g3"
    and opts: "CHR '']'' \<notin> set opts"
    and arg: "CHR ''{'' \<notin> set arg" "CHR ''}'' \<notin> set arg"
    and content: "declaration_rest content = Inr None" "dropWhile is_space content = content"
  shows "normalize (bs # ''documentclass'' @ g1 @ ''['' @ opts @ '']'' @ g2 @ ''{'' @ arg @ ''}'' @ g3 @ content)
           = Inr content"
proof -
  let ?r = "g1 @ ''['' @ opts @ '']'' @ g2 @ ''{'' @ arg @ ''}'' @ g3 @ content"
  have k: "strip_keyword (bs # ''documentclass'' @ ?r) = Some ?r"
    by (rule strip_keyword_documentclass)
  have 1: "dropWhile is_space ?r = CHR ''['' # opts @ '']'' @ g2 @ ''{'' @ arg @ ''}'' @ g3 @ content"
    using g1 by (simp add: dropWhile_spaces_append not_space)
  have 2: "skip_options (CHR ''['' # opts @ '']'' @ g2 @ ''{'' @ arg @ ''}'' @ g3 @ content)
             = Some (g2 @ ''{'' @ arg @ ''}'' @ g3 @ content)"
    using opts after_bracket_append [of opts] by (simp add: skip_options_def)
  have 3: "dropWhile is_space (g2 @ ''{'' @ arg @ ''}'' @ g3 @ content)
             = CHR ''{'' # arg @ ''}'' @ g3 @ content"
    using g2 by (simp add: dropWhile_spaces_append not_space)
  have 4: "after_brace 0 (arg @ ''}'' @ g3 @ content) = Some (g3 @ content)"
    using arg after_brace_append [of arg] by simp
  have rest: "declaration_rest (bs # ''documentclass'' @ ?r) = Inr (Some (g3 @ content))"
    unfolding declaration_rest_def k by (simp only: 1 2 3 4 option.case list.case) simp
  have 5: "dropWhile is_space (g3 @ content) = content"
    using g3 content(2) by (simp add: dropWhile_spaces_append)
  have 6: "strip_declarations content = Inr content"
    using content(1) by (simp add: strip_declarations.simps [of content])
  have 7: "dropWhile is_space (bs # ''documentclass'' @ ?r) = bs # ''documentclass'' @ ?r"
    by (simp add: not_space)
  have 8: "takeWhile is_space (bs # ''documentclass'' @ ?r) = []"
    by (simp add: not_space)
  show ?thesis
    unfolding normalize_def 7 8 rest by (simp add: 5 6 leading_white_space_def)
qed

theorem normalize_multiline_declaration_witness:
  "normalize preamble_0 = Inr preamble_0_result \<and>
   normalize preamble_1 = Inr preamble_1_result \<and>
   normalize preamble_2 = Inr preamble_2_result"
proof -
  have u: "declaration_rest usepackage_line = Inr None"
    "dropWhile is_space usepackage_line = usepackage_line"
    by (simp_all add: fixture_defs normalize_defs)
  have a: "normalize preamble_0 = Inr preamble_0_result"
    using normalize_multiline_declaration
      [of "[]" "[]" "''\<newline>''" "''10pt''" "''article''" usepackage_line] u
    by (simp add: preamble_0_def preamble_0_result_def is_space_def)
  have b: "normalize preamble_1 = Inr preamble_1_result"
    using normalize_multiline_declaration
      [of "[]" "''\<newline>''" "''\<newline>''" "''10pt''" "''article''" usepackage_line] u
    by (simp add: preamble_1_def preamble_1_result_def is_space_def)
  have c: "normalize preamble_2 = Inr preamble_2_result"
    using normalize_multiline_declaration
      [of "[]" "''\<newline>''" "''\<newline>''" "''10pt''" "''article\<newline>''" usepackage_line] u
    by (simp add: preamble_2_def preamble_2_result_def is_space_def)
  from a b c show ?thesis by simp
qed

text \<open>
  C8. The old keyword is read as the new one: whatever follows the keyword, the two texts
  are both declarations or both not, and wherever the text with
  \<^verbatim>\<open>\documentclass\<close> loses its declaration, the text with
  \<^verbatim>\<open>\documentstyle\<close> gives the same output (without a declaration either text
  is returned as it is). Preamble 4 gives the output of preamble 0.
\<close>

theorem legacy_keyword_identical:
  assumes ws: "list_all is_space ws"
  shows "declaration_rest (bs # ''documentstyle'' @ r) = declaration_rest (bs # ''documentclass'' @ r) \<and>
         normalize (ws @ bs # ''documentstyle'' @ r) =
           (if declaration_rest (bs # ''documentclass'' @ r) = Inr None
            then Inr (ws @ bs # ''documentstyle'' @ r)
            else normalize (ws @ bs # ''documentclass'' @ r))"
proof -
  have eq: "declaration_rest (bs # ''documentstyle'' @ r) = declaration_rest (bs # ''documentclass'' @ r)"
    unfolding declaration_rest_def strip_keyword_documentclass strip_keyword_documentstyle ..
  have d: "\<And>k. dropWhile is_space (ws @ bs # k) = bs # k"
    using ws by (simp add: dropWhile_spaces_append not_space)
  have t: "\<And>k. takeWhile is_space (ws @ bs # k) = ws"
    using ws by (simp add: takeWhile_spaces_append not_space)
  have s: "normalize (ws @ bs # ''documentstyle'' @ r) =
        (case declaration_rest (bs # ''documentstyle'' @ r) of
        Inl e \<Rightarrow> Inl e
      | Inr None \<Rightarrow> Inr (ws @ bs # ''documentstyle'' @ r)
      | Inr (Some r) \<Rightarrow>
          (case strip_declarations (dropWhile is_space r) of
             Inl e \<Rightarrow> Inl e
           | Inr content \<Rightarrow> Inr (leading_white_space ws @ content)))"
    unfolding normalize_def d t ..
  have c: "normalize (ws @ bs # ''documentclass'' @ r) =
        (case declaration_rest (bs # ''documentclass'' @ r) of
        Inl e \<Rightarrow> Inl e
      | Inr None \<Rightarrow> Inr (ws @ bs # ''documentclass'' @ r)
      | Inr (Some r) \<Rightarrow>
          (case strip_declarations (dropWhile is_space r) of
             Inl e \<Rightarrow> Inl e
           | Inr content \<Rightarrow> Inr (leading_white_space ws @ content)))"
    unfolding normalize_def d t ..
  show ?thesis
    unfolding s c eq by (auto split: sum.splits option.splits)
qed

theorem legacy_keyword_identical_witness:
  "normalize preamble_4 = normalize preamble_0 \<and> normalize preamble_4 = Inr preamble_4_result"
proof -
  have d: "declaration_rest (bs # ''documentclass'' @ ''[10pt]{article}\<newline>'' @ usepackage_line) \<noteq> Inr None"
    by (simp add: fixture_defs normalize_defs)
  have "normalize preamble_4 = normalize preamble_0"
    using legacy_keyword_identical [of "[]" "''[10pt]{article}\<newline>'' @ usepackage_line"] d
    by (simp add: preamble_4_def preamble_0_def)
  moreover have "normalize preamble_0 = Inr preamble_4_result"
    by (simp add: fixture_defs normalize_defs strip_declarations.simps)
  ultimately show ?thesis by simp
qed

section \<open>Properties of TempDirectory\<close>

lemmas with_defs = with_TempDirectory_def enter_def exit_def mkdtemp_def rmtree_def
  TempDirectory_init_def RESULTS_INTO_TEMPDIR_def

text \<open>
  C3. With the module flag as the source sets it, a \<^verbatim>\<open>with TempDirectory(...)\<close>
  block enters with the directory that \<^verbatim>\<open>mkdtemp\<close> created, and that
  directory does not exist once the block is left, whatever the body did and whether the
  body returned or raised.
\<close>

theorem TempDirectory_released:
  "enter RESULTS_INTO_TEMPDIR cwd tmp (TempDirectory_init sfx) fs =
     (\<lparr>name = Some tmp, suffix = sfx\<rparr>, insert tmp fs) \<and>
   tmp \<notin> fst (with_TempDirectory RESULTS_INTO_TEMPDIR sfx cwd tmp body fs)"
  by (auto simp: with_defs below_def split: prod.splits option.splits)

theorem TempDirectory_released_witness:
  "with_TempDirectory RESULTS_INTO_TEMPDIR ''t'' ''/home/u'' ''/tmp/tmpab12''
     (\<lambda>tempdir fs. (insert ''/tmp/tmpab12/1.png'' fs, Inr True)) {''/tmp'', ''/home/u''} =
     ({''/tmp'', ''/home/u''}, Inr True) \<and>
   with_TempDirectory RESULTS_INTO_TEMPDIR ''t'' ''/home/u'' ''/tmp/tmpab12''
     (\<lambda>tempdir fs. (insert ''/tmp/tmpab12/1.png'' fs, Inl AssertionError :: py_exception + bool))
     {''/tmp'', ''/home/u''} =
     ({''/tmp'', ''/home/u''}, Inl AssertionError) \<and>
   ''/tmp/tmpab12'' \<notin> fst (with_TempDirectory RESULTS_INTO_TEMPDIR ''t'' ''/home/u'' ''/tmp/tmpab12''
     (\<lambda>tempdir fs. (insert ''/tmp/tmpab12/1.png'' fs, Inl AssertionError :: py_exception + bool))
     {''/tmp'', ''/home/u''})"
proof -
  have a: "with_TempDirectory RESULTS_INTO_TEMPDIR ''t'' ''/home/u'' ''/tmp/tmpab12''
     (\<lambda>tempdir fs. (insert ''/tmp/tmpab12/1.png'' fs, Inr True)) {''/tmp'', ''/home/u''} =
     ({''/tmp'', ''/home/u''}, Inr True)"
    by (auto simp: with_defs below_def)
  have b: "with_TempDirectory RESULTS_INTO_TEMPDIR ''t'' ''/home/u'' ''/tmp/tmpab12''
     (\<lambda>tempdir fs. (insert ''/tmp/tmpab12/1.png'' fs, Inl AssertionError :: py_exception + bool))
     {''/tmp'', ''/home/u''} =
     ({''/tmp'', ''/home/u''}, Inl AssertionError)"
    by (auto simp: with_defs below_def)
  from a b TempDirectory_released [of "''/home/u''" "''/tmp/tmpab12''" "''t''" "{''/tmp'', ''/home/u''}"
      "\<lambda>tempdir fs. (insert ''/tmp/tmpab12/1.png'' fs, Inl AssertionError :: py_exception + bool)"]
  show ?thesis by blast
qed

text \<open>
  With the flag off the results are kept on purpose: leaving the block changes nothing in
  the file system.
\<close>

lemma TempDirectory_kept_without_flag:
  "fst (with_TempDirectory False sfx cwd tmp body fs) =
   fst (body \<lparr>name = Some (join2 (join2 cwd ''pytests_results'') sfx), suffix = sfx\<rparr>
          (insert (join2 (join2 cwd ''pytests_results'') sfx) fs))"
  by (auto simp: with_TempDirectory_def enter_def exit_def TempDirectory_init_def Let_def
      insert_absorb split: prod.splits)

section \<open>Properties of the render options\<close>

text \<open>
  C6. For a render block that is a non-empty dict with a value for
  \<^verbatim>\<open>scale-is-preserved\<close>: when that value is true, a block with
  \<^verbatim>\<open>height\<close> is rejected by the assertion and nothing is rendered, any other
  block is rendered with \<^verbatim>\<open>dpi\<close> (90 when absent) and without
  \<^verbatim>\<open>height\<close>; when it is false, a block with \<^verbatim>\<open>dpi\<close> is rejected
  by the assertion and nothing is rendered, any other block is rendered with
  \<^verbatim>\<open>height\<close> (100 when absent) and without \<^verbatim>\<open>dpi\<close>.
\<close>

theorem render_options_exclusive:
  assumes "d \<noteq> []" and "getitem d ''scale-is-preserved'' = Inr preserved"
  shows
    "(py_truthy preserved \<and> contains d ''height'' \<longrightarrow>
        render_modified svg_isfile png_isfile (JObj d) = ([], Inl AssertionError)) \<and>
     (py_truthy preserved \<and> \<not> contains d ''height'' \<longrightarrow>
        (\<exists>kw outcome. render_modified svg_isfile png_isfile (JObj d) = ([kw], outcome) \<and>
           render_options (JObj d) = Inr kw \<and>
           kw ''dpi'' = Some (get d ''dpi'' (JInt 90)) \<and> kw ''height'' = None)) \<and>
     (\<not> py_truthy preserved \<and> contains d ''dpi'' \<longrightarrow>
        render_modified svg_isfile png_isfile (JObj d) = ([], Inl AssertionError)) \<and>
     (\<not> py_truthy preserved \<and> \<not> contains d ''dpi'' \<longrightarrow>
        (\<exists>kw outcome. render_modified svg_isfile png_isfile (JObj d) = ([kw], outcome) \<and>
           render_options (JObj d) = Inr kw \<and>
           kw ''height'' = Some (get d ''height'' (JInt 100)) \<and> kw ''dpi'' = None))"
  using assms by (simp add: render_modified_def render_options_def)

lemmas render_defs = render_modified_def render_options_def getitem_def contains_def get_def
  svg_to_png_def export_number_def

theorem render_options_exclusive_witness:
  "render_modified True True (JObj [(''scale-is-preserved'', JBool True), (''height'', JInt 50)]) =
     ([], Inl AssertionError) \<and>
   render_modified True True (JObj [(''scale-is-preserved'', JBool False), (''dpi'', JInt 300)]) =
     ([], Inl AssertionError) \<and>
   snd (render_modified True True (JObj [(''scale-is-preserved'', JBool True)])) =
     Inr [Export_dpi 90] \<and>
   snd (render_modified True True (JObj [(''scale-is-preserved'', JBool False)])) =
     Inr [Export_height 100] \<and>
   snd (render_modified True True
          (JObj [(''scale-is-preserved'', JBool True), (''dpi'', JInt 300), (''render-area'', JStr ''drawing'')])) =
     Inr [Export_dpi 300, Export_area_drawing]"
proof -
  have a: "render_modified True True (JObj [(''scale-is-preserved'', JBool True), (''height'', JInt 50)]) =
     ([], Inl AssertionError)"
    using render_options_exclusive
      [of "[(''scale-is-preserved'', JBool True), (''height'', JInt 50)]" "JBool True" True True]
    by (simp add: getitem_def contains_def)
  have b: "render_modified True True (JObj [(''scale-is-preserved'', JBool False), (''dpi'', JInt 300)]) =
     ([], Inl AssertionError)"
    using render_options_exclusive
      [of "[(''scale-is-preserved'', JBool False), (''dpi'', JInt 300)]" "JBool False" True True]
    by (simp add: getitem_def contains_def)
  show ?thesis using a b by (simp add: render_defs)
qed

section \<open>Properties of images_are_same\<close>

text \<open>
  C5, as stated: when \<^verbatim>\<open>compare\<close> returns 0 or 1, its output is an integer and
  the size check passed, the result is true exactly if the number of differing pixels is
  at most \<^verbatim>\<open>pixel_diff_abs_tol\<close> and at most width times height times
  \<^verbatim>\<open>pixel_diff_rel_tol\<close>. It fails for two images of 1000 by 1000 and 999 by
  1000 pixels with 30 differing pixels and the tolerances 50 and 0.5: both bounds hold,
  and the result is false, since the absolute tolerance was halved to 25. (Every product
  of this example is a float itself.)
\<close>

theorem images_are_same_counterexample:
  "returncode \<lparr>returncode = 1, stdout = [], stderr = ''30'', stderr_int = Some 30\<rparr> \<in> set [0, 1] \<and>
   \<not> too_different_sizes exact_product \<lparr>width = 1000, height = 1000\<rparr> \<lparr>width = 999, height = 1000\<rparr>
       10 (1 / 128) \<and>
   (30 :: int) \<le> 50 \<and> real_of_int 30 \<le> exact_product (999 * 1000) (1 / 2) \<and>
   images_are_same exact_product True True \<lparr>width = 1000, height = 1000\<rparr> \<lparr>width = 999, height = 1000\<rparr>
     10 (1 / 128) 50 (1 / 2) \<lparr>returncode = 1, stdout = [], stderr = ''30'', stderr_int = Some 30\<rparr> =
     Inr (False, Diff_pixels_abs 30 25)"
  by (simp add: images_are_same_def too_different_sizes_def exact_product_def)

text \<open>
  C5, amended: when \<^verbatim>\<open>compare\<close> returns 0 or 1, its output is an integer, the
  size check passed and the size both images are resized to has no zero, the function
  returns a pair, and its truth value is true exactly if the number of differing pixels is
  at most the absolute tolerance and at most \<^verbatim>\<open>w * h * pixel_diff_rel_tol\<close>,
  where \<open>w\<close> and \<open>h\<close> are the smaller width and the smaller height of the two
  images, and where, when the images differ in width or in height, the absolute tolerance,
  \<open>w\<close> and \<open>h\<close> are each halved first (rounding down). Nothing is said about the
  other cases.
\<close>

theorem images_are_same_iff:
  assumes rc: "returncode proc = 0 \<or> returncode proc = 1"
    and parsed: "stderr_int proc = Some diff_pixels"
    and sizes: "\<not> too_different_sizes mul im1 im2 size_abs_tol size_rel_tol"
    and resize: "0 < resized_width im1 im2" "0 < resized_height im1 im2"
  shows "\<exists>msg. images_are_same mul True True im1 im2 size_abs_tol size_rel_tol
           pixel_diff_abs_tol pixel_diff_rel_tol proc =
           Inr (diff_pixels \<le> used_abs_tol im1 im2 pixel_diff_abs_tol \<and>
                real_of_int diff_pixels \<le>
                  mul (resized_width im1 im2 * resized_height im1 im2) pixel_diff_rel_tol, msg)"
proof -
  have rc': "returncode proc \<in> set [0, 1]" using rc by auto
  show ?thesis
  proof (cases "sizes_differ im1 im2")
    case True
    then have d: "(int (height im2) - int (height im1) \<noteq> 0 \<or> int (width im2) - int (width im1) \<noteq> 0) = True"
      by (auto simp: sizes_differ_def)
    show ?thesis
      unfolding images_are_same_def Let_def d using rc' parsed sizes True resize
      by (simp add: not_less resized_width_def resized_height_def used_abs_tol_def)
  next
    case False
    then have d: "(int (height im2) - int (height im1) \<noteq> 0 \<or> int (width im2) - int (width im1) \<noteq> 0) = False"
      by (auto simp: sizes_differ_def)
    show ?thesis
      unfolding images_are_same_def Let_def d using rc' parsed sizes False resize
      by (simp add: not_less resized_width_def resized_height_def used_abs_tol_def)
  qed
qed

theorem images_are_same_iff_witness:
  "\<not> too_different_sizes exact_product \<lparr>width = 1000, height = 1000\<rparr> \<lparr>width = 999, height = 1000\<rparr> 10 (1 / 128) \<and>
   0 < resized_width \<lparr>width = 1000, height = 1000\<rparr> \<lparr>width = 999, height = 1000\<rparr> \<and>
   0 < resized_height \<lparr>width = 1000, height = 1000\<rparr> \<lparr>width = 999, height = 1000\<rparr> \<and>
   (\<exists>msg. images_are_same exact_product True True \<lparr>width = 1000, height = 1000\<rparr> \<lparr>width = 999, height = 1000\<rparr>
            10 (1 / 128) 50 (1 / 2) \<lparr>returncode = 1, stdout = [], stderr = ''25'', stderr_int = Some 25\<rparr> =
            Inr (True, msg)) \<and>
   (\<exists>msg. images_are_same exact_product True True \<lparr>width = 1000, height = 1000\<rparr> \<lparr>width = 1000, height = 1000\<rparr>
            10 (1 / 128) 50 (1 / 2) \<lparr>returncode = 0, stdout = [], stderr = ''30'', stderr_int = Some 30\<rparr> =
            Inr (True, msg))"
proof -
  have a: "\<not> too_different_sizes exact_product \<lparr>width = 1000, height = 1000\<rparr> \<lparr>width = 999, height = 1000\<rparr> 10 (1 / 128)"
    by (simp add: too_different_sizes_def exact_product_def)
  have b: "\<not> too_different_sizes exact_product \<lparr>width = 1000, height = 1000\<rparr> \<lparr>width = 1000, height = 1000\<rparr> 10 (1 / 128)"
    by (simp add: too_different_sizes_def exact_product_def)
  have r: "0 < resized_width \<lparr>width = 1000, height = 1000\<rparr> \<lparr>width = 999, height = 1000\<rparr>"
    "0 < resized_height \<lparr>width = 1000, height = 1000\<rparr> \<lparr>width = 999, height = 1000\<rparr>"
    by (simp_all add: resized_width_def resized_height_def sizes_differ_def)
  have c: "\<exists>msg. images_are_same exact_product True True \<lparr>width = 1000, height = 1000\<rparr> \<lparr>width = 999, height = 1000\<rparr>
            10 (1 / 128) 50 (1 / 2) \<lparr>returncode = 1, stdout = [], stderr = ''25'', stderr_int = Some 25\<rparr> = Inr (True, msg)"
    using images_are_same_iff [of "\<lparr>returncode = 1, stdout = [], stderr = ''25'', stderr_int = Some 25\<rparr>" 25
        exact_product "\<lparr>width = 1000, height = 1000\<rparr>" "\<lparr>width = 999, height = 1000\<rparr>" 10 "1 / 128" 50 "1 / 2"] a r
    by (simp add: resized_width_def resized_height_def used_abs_tol_def sizes_differ_def exact_product_def)
  have d: "\<exists>msg. images_are_same exact_product True True \<lparr>width = 1000, height = 1000\<rparr> \<lparr>width = 1000, height = 1000\<rparr>
            10 (1 / 128) 50 (1 / 2) \<lparr>returncode = 0, stdout = [], stderr = ''30'', stderr_int = Some 30\<rparr> = Inr (True, msg)"
    using images_are_same_iff [of "\<lparr>returncode = 0, stdout = [], stderr = ''30'', stderr_int = Some 30\<rparr>" 30
        exact_product "\<lparr>width = 1000, height = 1000\<rparr>" "\<lparr>width = 1000, height = 1000\<rparr>" 10 "1 / 128" 50 "1 / 2"] b
    by (simp add: resized_width_def resized_height_def used_abs_tol_def sizes_differ_def exact_product_def)
  from a r c d show ?thesis by blast
qed

text \<open>
  Two of the other cases: a width of one pixel after the halving, and a return code other
  than 0 and 1 with a message on the error stream. The function raises in both.
\<close>

lemma images_are_same_raises:
  "images_are_same exact_product True True \<lparr>width = 2, height = 2\<rparr> \<lparr>width = 1, height = 2\<rparr>
     10 (1 / 128) 50 (1 / 2) \<lparr>returncode = 0, stdout = [], stderr = ''0'', stderr_int = Some 0\<rparr> =
     Inl ValueError \<and>
   images_are_same exact_product True True \<lparr>width = 10, height = 10\<rparr> \<lparr>width = 10, height = 10\<rparr>
     10 (1 / 128) 50 (1 / 2) \<lparr>returncode = 2, stdout = [], stderr = ''compare: no image'', stderr_int = None\<rparr> =
     Inl TypeError"
  by (simp add: images_are_same_def too_different_sizes_def exact_product_def)

text \<open>
  C10. The size check is one-sided: when the second image is no wider and no higher than
  the first, then, for tolerances that are not negative, the check passes and the result
  is never the failure for too different sizes, however much smaller the second image is.
  Of the float product this uses only that it is not negative for an int and a float that
  are not negative.
\<close>

theorem size_check_one_sided:
  assumes sign: "\<And>n x. 0 \<le> n \<Longrightarrow> 0 \<le> x \<Longrightarrow> 0 \<le> mul n x"
    and "width im2 \<le> width im1" and "height im2 \<le> height im1"
    and "0 \<le> size_abs_tol" and "0 \<le> size_rel_tol"
  shows "\<not> too_different_sizes mul im1 im2 size_abs_tol size_rel_tol \<and>
         images_are_same mul png1_isfile png2_isfile im1 im2 size_abs_tol size_rel_tol
           pixel_diff_abs_tol pixel_diff_rel_tol proc \<noteq> Inr (False, Too_different_sizes s1 s2)"
proof -
  let ?dw = "int (width im2) - int (width im1)"
  let ?dh = "int (height im2) - int (height im1)"
  let ?w = "int (min (width im2) (width im1))"
  let ?h = "int (min (height im2) (height im1))"
  have dw: "?dw \<le> 0" and dh: "?dh \<le> 0"
    using assms by simp_all
  have w: "0 \<le> mul ?w size_rel_tol" and h: "0 \<le> mul ?h size_rel_tol"
    using assms(5) by (simp_all add: sign)
  have 1: "\<not> ?dw > size_abs_tol" using dw assms(4) by linarith
  have 2: "\<not> ?dh > size_abs_tol" using dh assms(4) by linarith
  have "real_of_int ?dw \<le> 0" using dw by linarith
  then have 3: "\<not> real_of_int ?dw > mul ?w size_rel_tol" using w by linarith
  have "real_of_int ?dh \<le> 0" using dh by linarith
  then have 4: "\<not> real_of_int ?dh > mul ?h size_rel_tol" using h by linarith
  have ok: "\<not> too_different_sizes mul im1 im2 size_abs_tol size_rel_tol"
    unfolding too_different_sizes_def Let_def using 1 2 3 4 by blast
  have "images_are_same mul png1_isfile png2_isfile im1 im2 size_abs_tol size_rel_tol
           pixel_diff_abs_tol pixel_diff_rel_tol proc \<noteq> Inr (False, Too_different_sizes s1 s2)"
  proof (cases "stderr_int proc")
    case None
    with ok show ?thesis by (simp add: images_are_same_def Let_def)
  next
    case (Some d)
    with ok show ?thesis by (simp add: images_are_same_def Let_def)
  qed
  with ok show ?thesis by simp
qed

theorem size_check_one_sided_witness:
  "width \<lparr>width = 1, height = 1\<rparr> \<le> width \<lparr>width = 1000, height = 1000\<rparr> \<and>
   height \<lparr>width = 1, height = 1\<rparr> \<le> height \<lparr>width = 1000, height = 1000\<rparr> \<and>
   \<not> too_different_sizes exact_product \<lparr>width = 1000, height = 1000\<rparr> \<lparr>width = 1, height = 1\<rparr> 10 (1 / 128) \<and>
   images_are_same exact_product True True \<lparr>width = 1000, height = 1000\<rparr> \<lparr>width = 1, height = 1\<rparr>
     10 (1 / 128) 0 0 \<lparr>returncode = 0, stdout = [], stderr = ''0'', stderr_int = Some 0\<rparr> \<noteq>
     Inr (False, Too_different_sizes (1000, 1000) (1, 1)) \<and>
   too_different_sizes exact_product \<lparr>width = 1, height = 1\<rparr> \<lparr>width = 1000, height = 1000\<rparr> 10 (1 / 128)"
proof -
  have s: "\<And>n x. 0 \<le> n \<Longrightarrow> 0 \<le> x \<Longrightarrow> 0 \<le> exact_product n x"
    by (simp add: exact_product_def)
  have "too_different_sizes exact_product \<lparr>width = 1, height = 1\<rparr> \<lparr>width = 1000, height = 1000\<rparr> 10 (1 / 128)"
    by (simp add: too_different_sizes_def exact_product_def)
  then show ?thesis
    using size_check_one_sided [of exact_product "\<lparr>width = 1, height = 1\<rparr>" "\<lparr>width = 1000, height = 1000\<rparr>"
        10 "1 / 128" True True 0 0 "\<lparr>returncode = 0, stdout = [], stderr = ''0'', stderr_int = Some 0\<rparr>"
        "(1000, 1000)" "(1, 1)", OF s]
    by simp
qed

section \<open>Properties of the GTK3 front end\<close>

text \<open>
  C9. When the command of the metadata is not one of \<^verbatim>\<open>Cmds.ALL_TEX\<close>, the
  constructor of the base class returns the dialog object, which refers to the metadata it
  was given, and has stored \<^verbatim>\<open>Cmds.PDFLATEX\<close> as the command of that
  metadata; nothing else of the store changes.
\<close>

theorem TexTextGuiBase_init_substitutes_default:
  assumes "tex_command (st node_meta_data) \<notin> set (ALL_TEX cmds)"
  shows "meta_data (fst (TexTextGuiBase_init cmds version_str node_meta_data cfg st)) = node_meta_data \<and>
         snd (TexTextGuiBase_init cmds version_str node_meta_data cfg st) =
           st(node_meta_data := (st node_meta_data)\<lparr>tex_command := PDFLATEX cmds\<rparr>) \<and>
         tex_command (snd (TexTextGuiBase_init cmds version_str node_meta_data cfg st) node_meta_data) =
           PDFLATEX cmds"
  using assms by (simp add: TexTextGuiBase_init_def)

theorem TexTextGuiBase_init_substitutes_default_witness:
  "tex_command
     (snd (TexTextGuiBase_init \<lparr>PDFLATEX = ''pdflatex'', ALL_TEX = [''pdflatex'', ''xelatex'', ''lualatex'']\<rparr>
        ''2.0'' 0 \<lparr>SettingsTexText.scale_factor = 1, SettingsTexText.font_size_pt = 10\<rparr>
        (\<lambda>r. \<lparr>tex_command = ''latex'', alignment = ''middle center'', use_font_size = False,
                scale_factor = 1, font_size_pt = 10, text' = ''x'', preamble = ''p.tex''\<rparr>)) 0) =
   ''pdflatex''"
  using TexTextGuiBase_init_substitutes_default
    [of "\<lambda>r. \<lparr>tex_command = ''latex'', alignment = ''middle center'', use_font_size = False,
                scale_factor = 1, font_size_pt = 10, text' = ''x'', preamble = ''p.tex''\<rparr>" 0
        "\<lparr>PDFLATEX = ''pdflatex'', ALL_TEX = [''pdflatex'', ''xelatex'', ''lualatex'']\<rparr>" "''2.0''"
        "\<lparr>SettingsTexText.scale_factor = 1, SettingsTexText.font_size_pt = 10\<rparr>"]
  by simp

lemmas builder_defs = set_entries_def set_active_index_def set_active_def set_value_def
  set_sensitive_def

text \<open>
  What the sizing box does for any metadata: one group of controls is enabled, the other
  one disabled, and it is the scale group that is enabled when \<open>use_font_size\<close> is
  set.
\<close>

lemma sizing_box_groups:
  "enabled (sizing_box m b) (if use_font_size m then scale_group else fontsize_group) \<and>
   disabled (sizing_box m b) (if use_font_size m then fontsize_group else scale_group) \<and>
   active (sizing_box m b (if use_font_size m then ''rb_scale'' else ''rb_fontsize''))"
  by (simp add: sizing_box_def builder_defs enabled_def disabled_def scale_group_def fontsize_group_def)

text \<open>
  C2 asks that the group of the font size is the active one when \<open>use_font_size\<close> is
  set. For such a metadata \<^verbatim>\<open>show\<close> sets the radio button of the scale factor
  active, enables the scale group and disables the group of the font size.
\<close>

theorem show_gui_use_font_size:
  "\<exists>b. show_gui \<lparr>PDFLATEX = ''pdflatex'', ALL_TEX = [''pdflatex'', ''xelatex'', ''lualatex'']\<rparr>
     [''middle center'']
     \<lparr>textext_version = ''2.0'', meta_data = 0, global_scale_factor = 1, global_pdf_font_size = 10,
      config = \<lparr>SettingsTexText.scale_factor = 1, SettingsTexText.font_size_pt = 10\<rparr>\<rparr>
     (\<lambda>r. \<lparr>tex_command = ''pdflatex'', alignment = ''middle center'', use_font_size = True,
            scale_factor = 1, font_size_pt = 10, text' = ''x'', preamble = ''p.tex''\<rparr>)
     (\<lambda>i. \<lparr>entries = [], active_index = 0, active = False, adj_value = 0, sensitive = False\<rparr>) = Inr b
   \<and> enabled b scale_group \<and> disabled b fontsize_group \<and> active (b ''rb_scale'') \<and>
       \<not> active (b ''rb_fontsize'') \<and> \<not> enabled b fontsize_group"
  by (simp add: show_gui_def sizing_box_def builder_defs enabled_def disabled_def
      scale_group_def fontsize_group_def)

end
